theory Spec2Isabelle
  imports Main "HOL-Library.AList"
begin

section \<open>Python values, exceptions and the directory connection\<close>

text \<open>
  The plugins of \<^verbatim>\<open>repoze/who/plugins/ldap/plugins.py\<close> are dynamically typed.
  The values that reach them are modelled in three layers: atoms (\<^verbatim>\<open>None\<close>,
  integers, strings), plain data built from atoms (lists and dictionaries with string
  keys), and arbitrary objects (plain data or a directory connection handle).
  The language is Python 2, which has two string types: \<^verbatim>\<open>str\<close>, a sequence of
  bytes, is the HOL type of strings, whose characters are bytes; \<^verbatim>\<open>unicode\<close> is
  a sequence of code points, here natural numbers. A dictionary is an association list
  whose order is the iteration order.
\<close>

type_synonym unicode = "nat list"

datatype pyval = PNone | PInt int | PStr string | PUnicode unicode

datatype pydata = Atom pyval | PList "pyval list" | PDict "(string \<times> pyval) list"

text \<open>
  The exceptions that occur: the interpreter's own, the \<^verbatim>\<open>ValueError\<close> with the
  message the source gives it, its subclass \<^verbatim>\<open>UnicodeDecodeError\<close>, and
  \<^verbatim>\<open>ldap.LDAPError\<close> (with all its subclasses) carrying its text.
\<close>

datatype exn =
  KeyError | TypeError | AttributeError | ValueError string | UnicodeDecodeError
  | LDAPError string

datatype scope = SCOPE_BASE | SCOPE_ONELEVEL | SCOPE_SUBTREE

text \<open>
  A connection handle is an object that may or may not have the two methods the plugins
  call. A method that is present either returns or raises; \<^verbatim>\<open>simple_bind_s\<close> is
  called with the distinguished name and the password, \<^verbatim>\<open>search_s\<close> with the
  base, the scope, the filter string and the attribute list (\<^verbatim>\<open>None\<close> for all
  attributes), and yields the (name, value) pairs the loop of \<^verbatim>\<open>add_metadata\<close>
  unpacks.
\<close>

record ldapobject =
  simple_bind_s :: "(unicode \<Rightarrow> pyval \<Rightarrow> exn + unit) option"
  search_s :: "(pyval \<Rightarrow> scope \<Rightarrow> string \<Rightarrow> pyval list option \<Rightarrow> exn + (string \<times> pyval) list) option"

datatype pyobj = Data pydata | Handle ldapobject

text \<open>
  The WSGI environment is a dictionary; the only entry the plugins read is the logger
  under \<^verbatim>\<open>'repoze.who.logger'\<close>.
\<close>

datatype envobj = Logger | EnvData pydata

type_synonym environ = "string \<rightharpoonup> envobj"

text \<open>What a call does to the outside world, in the order it happens.\<close>

datatype event =
  BindCall unicode pyval
  | SearchCall pyval scope string "pyval list option"
  | Warn string

section \<open>Primitive operations of the language\<close>

text \<open>
  How \<^verbatim>\<open>%s\<close> prints an integer: the decimal digits, most significant first,
  after a minus sign for a negative number. The digits are collected from the right.
\<close>

definition digit :: "nat \<Rightarrow> char" where
  "digit k = char_of (k + 48)"

fun decimal :: "nat \<Rightarrow> string \<Rightarrow> string" where
  "decimal n acc =
     (if n < 10 then digit n # acc else decimal (n div 10) (digit (n mod 10) # acc))"

declare decimal.simps [simp del]

definition py_str_int :: "int \<Rightarrow> string" where
  "py_str_int i = (if i < 0 then CHR ''-'' # decimal (nat (- i)) [] else decimal (nat i) [])"

text \<open>
  A byte string becomes a unicode string by decoding; the default codec is ASCII, which
  raises \<^verbatim>\<open>UnicodeDecodeError\<close> at a byte above 127. A unicode literal of the
  source is the decoding of its ASCII text.
\<close>

definition ustr :: "string \<Rightarrow> unicode" where
  "ustr s = map of_char s"

definition is_ascii :: "string \<Rightarrow> bool" where
  "is_ascii s = list_all (\<lambda>c. (of_char c :: nat) < 128) s"

definition ascii_decode :: "string \<Rightarrow> exn + unicode" where
  "ascii_decode s = (if is_ascii s then Inr (ustr s) else Inl UnicodeDecodeError)"

text \<open>
  The conversion \<^verbatim>\<open>%s\<close> of an atom under a unicode format: a unicode string
  is taken as it is, a byte string is decoded, anything else is printed and the print
  is decoded.
\<close>

fun py_format_s :: "pyval \<Rightarrow> exn + unicode" where
  "py_format_s PNone = Inr (ustr ''None'')"
| "py_format_s (PInt i) = Inr (ustr (py_str_int i))"
| "py_format_s (PStr s) = ascii_decode s"
| "py_format_s (PUnicode u) = Inr u"

text \<open>The expression \<^verbatim>\<open>u'uid=%s,%s' % (login, base_dn)\<close>.\<close>

definition format_dn :: "pyval \<Rightarrow> pyval \<Rightarrow> exn + unicode" where
  "format_dn login base_dn =
     (case py_format_s login of
        Inl e \<Rightarrow> Inl e
      | Inr l \<Rightarrow> (case py_format_s base_dn of
                   Inl e \<Rightarrow> Inl e
                 | Inr b \<Rightarrow> Inr (ustr ''uid='' @ l @ ustr '','' @ b)))"

text \<open>
  \<^verbatim>\<open>obj[key]\<close> with a string key: a dictionary raises \<^verbatim>\<open>KeyError\<close> for a
  missing key, anything else \<^verbatim>\<open>TypeError\<close>.
\<close>

fun py_getitem :: "pydata \<Rightarrow> string \<Rightarrow> exn + pyval" where
  "py_getitem (PDict d) k = (case map_of d k of None \<Rightarrow> Inl KeyError | Some v \<Rightarrow> Inr v)"
| "py_getitem (PList xs) k = Inl TypeError"
| "py_getitem (Atom a) k = Inl TypeError"

text \<open>\<^verbatim>\<open>obj.get(key)\<close>: only a dictionary has the method.\<close>

fun py_get :: "pydata \<Rightarrow> string \<Rightarrow> exn + pyval" where
  "py_get (PDict d) k = Inr (case map_of d k of None \<Rightarrow> PNone | Some v \<Rightarrow> v)"
| "py_get (PList xs) k = Inl AttributeError"
| "py_get (Atom a) k = Inl AttributeError"

text \<open>\<^verbatim>\<open>obj[key] = value\<close> on a dictionary; other data rejects the assignment.\<close>

fun py_setitem :: "pydata \<Rightarrow> string \<Rightarrow> pyval \<Rightarrow> exn + pydata" where
  "py_setitem (PDict d) k v = Inr (PDict (AList.update k v d))"
| "py_setitem (PList xs) k v = Inl TypeError"
| "py_setitem (Atom a) k v = Inl TypeError"

text \<open>
  \<^verbatim>\<open>s.split(sep)\<close> with a one-character separator, for a string of either
  type.
\<close>

fun split_on :: "'a \<Rightarrow> 'a list \<Rightarrow> 'a list list" where
  "split_on sep [] = [[]]"
| "split_on sep (c # cs) =
     (if c = sep then [] # split_on sep cs
      else (case split_on sep cs of [] \<Rightarrow> [[c]] | w # ws \<Rightarrow> (c # w) # ws))"

text \<open>\<^verbatim>\<open>environ['repoze.who.logger'].warn(msg)\<close>.\<close>

definition logger_warn :: "environ \<Rightarrow> string \<Rightarrow> exn + event list" where
  "logger_warn environ msg =
     (case environ ''repoze.who.logger'' of
        None \<Rightarrow> Inl KeyError
      | Some Logger \<Rightarrow> Inr [Warn msg]
      | Some (EnvData d) \<Rightarrow> Inl AttributeError)"

text \<open>The method \<^verbatim>\<open>simple_bind_s\<close> of an object, if it has one (\<^verbatim>\<open>hasattr\<close>).\<close>

fun bind_method :: "pyobj \<Rightarrow> (unicode \<Rightarrow> pyval \<Rightarrow> exn + unit) option" where
  "bind_method (Handle c) = simple_bind_s c"
| "bind_method (Data d) = None"

fun search_method ::
  "pyobj \<Rightarrow> (pyval \<Rightarrow> scope \<Rightarrow> string \<Rightarrow> pyval list option \<Rightarrow> exn + (string \<times> pyval) list) option" where
  "search_method (Handle c) = search_s c"
| "search_method (Data d) = None"

section \<open>Utilities\<close>

text \<open>
  \<^verbatim>\<open>make_ldap_connection\<close>. The library call \<^verbatim>\<open>ldap.initialize\<close> is a
  parameter: it is given the address, a string of either type, and returns a new handle
  or raises.
\<close>

fun make_ldap_connection :: "(pyval \<Rightarrow> exn + ldapobject) \<Rightarrow> pyobj \<Rightarrow> exn + pyobj" where
  "make_ldap_connection initialize (Data (Atom (PStr url))) =
     (case initialize (PStr url) of Inl e \<Rightarrow> Inl e | Inr c \<Rightarrow> Inr (Handle c))"
| "make_ldap_connection initialize (Data (Atom (PUnicode url))) =
     (case initialize (PUnicode url) of Inl e \<Rightarrow> Inl e | Inr c \<Rightarrow> Inr (Handle c))"
| "make_ldap_connection initialize (Data (Atom PNone)) =
     Inl (ValueError ''An LDAP connection must be specified'')"
| "make_ldap_connection initialize ldap_connection = Inr ldap_connection"

section \<open>The authenticator\<close>

record authenticator =
  auth_ldap_connection :: pyobj
  auth_base_dn :: pyval

definition LDAPAuthenticatorPlugin ::
  "(pyval \<Rightarrow> exn + ldapobject) \<Rightarrow> pyobj \<Rightarrow> pyval \<Rightarrow> exn + authenticator" where
  "LDAPAuthenticatorPlugin initialize ldap_connection base_dn =
     (if base_dn = PNone then Inl (ValueError ''A base Distinguished Name must be specified'')
      else (case make_ldap_connection initialize ldap_connection of
              Inl e \<Rightarrow> Inl e
            | Inr c \<Rightarrow> Inr \<lparr>auth_ldap_connection = c, auth_base_dn = base_dn\<rparr>))"

text \<open>
  \<^verbatim>\<open>_get_dn\<close>: the format \<^verbatim>\<open>u'uid=%s,%s'\<close> applied to the login and the base;
  a \<^verbatim>\<open>KeyError\<close> or \<^verbatim>\<open>TypeError\<close> of the lookup becomes a bare
  \<^verbatim>\<open>ValueError\<close>, and the \<^verbatim>\<open>UnicodeDecodeError\<close> of the format is not
  caught here.
\<close>

definition get_dn :: "authenticator \<Rightarrow> environ \<Rightarrow> pydata \<Rightarrow> exn + unicode" where
  "get_dn self environ identity =
     (case py_getitem identity ''login'' of
        Inr login \<Rightarrow> format_dn login (auth_base_dn self)
      | Inl KeyError \<Rightarrow> Inl (ValueError [])
      | Inl TypeError \<Rightarrow> Inl (ValueError [])
      | Inl e \<Rightarrow> Inl e)"

text \<open>The first \<^verbatim>\<open>try\<close> block of \<^verbatim>\<open>authenticate\<close>: the name and the password.\<close>

definition credentials :: "authenticator \<Rightarrow> environ \<Rightarrow> pydata \<Rightarrow> exn + unicode \<times> pyval" where
  "credentials self environ identity =
     (case get_dn self environ identity of
        Inl e \<Rightarrow> Inl e
      | Inr dn \<Rightarrow> (case py_getitem identity ''password'' of
                    Inl e \<Rightarrow> Inl e
                  | Inr password \<Rightarrow> Inr (dn, password)))"

text \<open>
  What \<^verbatim>\<open>except (KeyError, TypeError, ValueError)\<close> catches: the three
  classes and their subclasses.
\<close>

fun caught_by_authenticate :: "exn \<Rightarrow> bool" where
  "caught_by_authenticate KeyError = True"
| "caught_by_authenticate TypeError = True"
| "caught_by_authenticate (ValueError m) = True"
| "caught_by_authenticate UnicodeDecodeError = True"
| "caught_by_authenticate e = False"

text \<open>
  \<^verbatim>\<open>authenticate\<close>: the result is the exception raised or the value returned
  (\<^verbatim>\<open>None\<close> or the distinguished name), with the events of the call.
\<close>

definition authenticate ::
  "authenticator \<Rightarrow> environ \<Rightarrow> pydata \<Rightarrow> (exn + unicode option) \<times> event list" where
  "authenticate self environ identity =
     (case credentials self environ identity of
        Inl e \<Rightarrow> (if caught_by_authenticate e then (Inr None, []) else (Inl e, []))
      | Inr (dn, password) \<Rightarrow>
          (case bind_method (auth_ldap_connection self) of
             None \<Rightarrow>
               (case logger_warn environ ''Cannot bind with the provided LDAP connection object'' of
                  Inl e \<Rightarrow> (Inl e, [])
                | Inr evs \<Rightarrow> (Inr None, evs))
           | Some bind \<Rightarrow>
               (case bind dn password of
                  Inr u \<Rightarrow> (Inr (Some dn), [BindCall dn password])
                | Inl (LDAPError m) \<Rightarrow> (Inr None, [BindCall dn password])
                | Inl e \<Rightarrow> (Inl e, [BindCall dn password]))))"

section \<open>The metadata provider\<close>

record attributes_plugin =
  attr_ldap_connection :: pyobj
  attr_attributes :: "pyval list option"
  attr_filterstr :: string

text \<open>The default of the parameter \<^verbatim>\<open>filterstr\<close>.\<close>

definition default_filterstr :: string where
  "default_filterstr = ''(objectClass=*)''"

text \<open>
  The normalisation of the parameter \<^verbatim>\<open>attributes\<close> in the constructor: a
  string of either type (it has \<^verbatim>\<open>split\<close>) is split at commas, an iterable is copied into a
  list (a dictionary yields its keys), \<^verbatim>\<open>None\<close> stays, and anything else is
  rejected.
\<close>

fun normalise_attributes :: "pydata \<Rightarrow> exn + pyval list option" where
  "normalise_attributes (Atom (PStr s)) = Inr (Some (map PStr (split_on CHR '','' s)))"
| "normalise_attributes (Atom (PUnicode u)) =
     Inr (Some (map PUnicode (split_on (of_char CHR '','') u)))"
| "normalise_attributes (PList xs) = Inr (Some xs)"
| "normalise_attributes (PDict d) = Inr (Some (map (\<lambda>kv. PStr (fst kv)) d))"
| "normalise_attributes (Atom PNone) = Inr None"
| "normalise_attributes (Atom (PInt i)) = Inl (ValueError ''The needed LDAP attributes are not valid'')"

definition LDAPAttributesPlugin ::
  "(pyval \<Rightarrow> exn + ldapobject) \<Rightarrow> pyobj \<Rightarrow> pydata \<Rightarrow> string \<Rightarrow> exn + attributes_plugin" where
  "LDAPAttributesPlugin initialize ldap_connection attributes filterstr =
     (case normalise_attributes attributes of
        Inl e \<Rightarrow> Inl e
      | Inr attrs \<Rightarrow>
          (case make_ldap_connection initialize ldap_connection of
             Inl e \<Rightarrow> Inl e
           | Inr c \<Rightarrow> Inr \<lparr>attr_ldap_connection = c, attr_attributes = attrs,
                            attr_filterstr = filterstr\<rparr>))"

text \<open>
  The loop of \<^verbatim>\<open>add_metadata\<close>: every pair of the search result is assigned to
  the identity, in order; an assignment that raises ends the loop with the identity as
  it then is.
\<close>

fun write_pairs :: "pydata \<Rightarrow> (string \<times> pyval) list \<Rightarrow> (exn + unit) \<times> pydata" where
  "write_pairs identity [] = (Inr (), identity)"
| "write_pairs identity ((attr_key, attr_value) # rest) =
     (case py_setitem identity attr_key attr_value of
        Inl e \<Rightarrow> (Inl e, identity)
      | Inr identity' \<Rightarrow> write_pairs identity' rest)"

text \<open>
  \<^verbatim>\<open>add_metadata\<close>: the exception raised or the normal return, the identity as
  the call leaves it, and the events of the call. The arguments of the search are
  built first, then the method is looked up and called; only an \<^verbatim>\<open>LDAPError\<close>
  is caught.
\<close>

definition add_metadata ::
  "attributes_plugin \<Rightarrow> environ \<Rightarrow> pydata \<Rightarrow> (exn + unit) \<times> pydata \<times> event list" where
  "add_metadata self environ identity =
     (case py_get identity ''repoze.who.userid'' of
        Inl e \<Rightarrow> (Inl e, identity, [])
      | Inr userid \<Rightarrow>
          (case search_method (attr_ldap_connection self) of
             None \<Rightarrow> (Inl AttributeError, identity, [])
           | Some search \<Rightarrow>
               (let call = SearchCall userid SCOPE_BASE (attr_filterstr self) (attr_attributes self)
                in case search userid SCOPE_BASE (attr_filterstr self) (attr_attributes self) of
                     Inr pairs \<Rightarrow>
                       (case write_pairs identity pairs of
                          (Inl (LDAPError msg), identity') \<Rightarrow>
                            (case logger_warn environ (''Cannot add metadata: '' @ msg) of
                               Inl e \<Rightarrow> (Inl e, identity', [call])
                             | Inr evs \<Rightarrow> (Inr (), identity', call # evs))
                        | (r, identity') \<Rightarrow> (r, identity', [call]))
                   | Inl (LDAPError msg) \<Rightarrow>
                       (case logger_warn environ (''Cannot add metadata: '' @ msg) of
                          Inl e \<Rightarrow> (Inl e, identity, [call])
                        | Inr evs \<Rightarrow> (Inr (), identity, call # evs))
                   | Inl e \<Rightarrow> (Inl e, identity, [call]))))"

text \<open>The class test of \<^verbatim>\<open>except ldap.LDAPError\<close>.\<close>

fun is_ldap_error :: "exn \<Rightarrow> bool" where
  "is_ldap_error (LDAPError m) = True"
| "is_ldap_error e = False"

text \<open>The searches among the events of a call, and the warnings.\<close>

fun is_search :: "event \<Rightarrow> bool" where
  "is_search (SearchCall b s f a) = True"
| "is_search e = False"

fun is_warn :: "event \<Rightarrow> bool" where
  "is_warn (Warn m) = True"
| "is_warn e = False"

section \<open>An example directory\<close>

text \<open>
  A connection that behaves as the client library does, used for the concrete
  evaluations below: one entry, \<^verbatim>\<open>uid=rms,ou=developers,dc=gnu,dc=org\<close> with
  password \<^verbatim>\<open>freedom\<close>. A wrong name or password is an \<^verbatim>\<open>LDAPError\<close>;
  an argument that is not a string is rejected with \<^verbatim>\<open>TypeError\<close> before
  anything is sent. The search result lists \<^verbatim>\<open>cn\<close> twice.
\<close>

definition example_bind :: "unicode \<Rightarrow> pyval \<Rightarrow> exn + unit" where
  "example_bind dn password =
     (case password of
        PStr p \<Rightarrow>
          (if dn = ustr ''uid=rms,ou=developers,dc=gnu,dc=org'' \<and> p = ''freedom'' then Inr ()
           else Inl (LDAPError ''Invalid credentials''))
      | PUnicode p \<Rightarrow>
          (if dn = ustr ''uid=rms,ou=developers,dc=gnu,dc=org'' \<and> p = ustr ''freedom''
           then Inr ()
           else Inl (LDAPError ''Invalid credentials''))
      | PInt i \<Rightarrow> Inl TypeError
      | PNone \<Rightarrow> Inl TypeError)"

definition example_search ::
  "pyval \<Rightarrow> scope \<Rightarrow> string \<Rightarrow> pyval list option \<Rightarrow> exn + (string \<times> pyval) list" where
  "example_search base sc filterstr attrlist =
     (case base of
        PStr dn \<Rightarrow>
          (if dn = ''uid=rms,ou=developers,dc=gnu,dc=org''
           then Inr [(''cn'', PStr ''Richard''), (''mail'', PStr ''rms@gnu.org''),
                     (''cn'', PStr ''Richard Stallman'')]
           else Inl (LDAPError ''No such object''))
      | PUnicode dn \<Rightarrow>
          (if dn = ustr ''uid=rms,ou=developers,dc=gnu,dc=org''
           then Inr [(''cn'', PStr ''Richard''), (''mail'', PStr ''rms@gnu.org''),
                     (''cn'', PStr ''Richard Stallman'')]
           else Inl (LDAPError ''No such object''))
      | PInt i \<Rightarrow> Inl TypeError
      | PNone \<Rightarrow> Inl TypeError)"

definition example_conn :: ldapobject where
  "example_conn = \<lparr>simple_bind_s = Some example_bind, search_s = Some example_search\<rparr>"

definition example_initialize :: "pyval \<Rightarrow> exn + ldapobject" where
  "example_initialize url = Inr example_conn"

definition example_environ :: environ where
  "example_environ = [''repoze.who.logger'' \<mapsto> Logger]"

section \<open>Auxiliary facts\<close>

lemma ustr_append: "ustr (a @ b) = ustr a @ ustr b"
  by (simp add: ustr_def)

lemma ustr_eq_iff: "ustr a = ustr b \<longleftrightarrow> a = b"
proof -
  have "inj (of_char :: char \<Rightarrow> nat)"
    by (rule injI) simp
  then show ?thesis
    unfolding ustr_def by (simp add: inj_map_eq_map)
qed

lemma is_ascii_Nil: "is_ascii []"
  by (simp add: is_ascii_def)

lemma is_ascii_Cons: "is_ascii (c # cs) \<longleftrightarrow> (of_char c :: nat) < 128 \<and> is_ascii cs"
  by (simp add: is_ascii_def)

lemma format_dn_text:
  assumes "login = PUnicode l \<or> (\<exists>s. login = PStr s \<and> is_ascii s \<and> l = ustr s)"
    and "base_dn = PUnicode b \<or> (\<exists>s. base_dn = PStr s \<and> is_ascii s \<and> b = ustr s)"
  shows "format_dn login base_dn = Inr (ustr ''uid='' @ l @ ustr '','' @ b)"
  using assms by (auto simp: format_dn_def ascii_decode_def)

lemma format_dn_undecodable:
  assumes "(\<exists>s. login = PStr s \<and> \<not> is_ascii s) \<or> (\<exists>s. base_dn = PStr s \<and> \<not> is_ascii s)"
  shows "format_dn login base_dn = Inl UnicodeDecodeError"
proof -
  have "\<And>v e. py_format_s v = Inl e \<Longrightarrow> e = UnicodeDecodeError"
    by (case_tac v) (auto simp: ascii_decode_def split: if_splits)
  then show ?thesis
    using assms by (auto simp: format_dn_def ascii_decode_def split: sum.splits)
qed

lemma format_dn_decodable:
  assumes "\<forall>s. login = PStr s \<longrightarrow> is_ascii s" and "\<forall>s. base_dn = PStr s \<longrightarrow> is_ascii s"
  shows "\<exists>dn. format_dn login base_dn = Inr dn"
  using assms by (cases login; cases base_dn) (simp_all add: format_dn_def ascii_decode_def)

lemma format_dn_raises: "format_dn login base_dn = Inl e \<Longrightarrow> e = UnicodeDecodeError"
proof -
  have "\<And>v e. py_format_s v = Inl e \<Longrightarrow> e = UnicodeDecodeError"
    by (case_tac v) (auto simp: ascii_decode_def split: if_splits)
  then show "format_dn login base_dn = Inl e \<Longrightarrow> e = UnicodeDecodeError"
    by (auto simp: format_dn_def split: sum.splits)
qed

lemma logger_warn_events: "logger_warn environ msg = Inr evs \<Longrightarrow> evs = [Warn msg]"
  by (auto simp: logger_warn_def split: option.splits envobj.splits)

lemma write_pairs_dict:
  "write_pairs (PDict d) pairs =
     (Inr (), PDict (foldl (\<lambda>acc kv. AList.update (fst kv) (snd kv) acc) d pairs))"
  by (induction pairs arbitrary: d) auto

lemma map_of_written:
  "map_of (foldl (\<lambda>acc kv. AList.update (fst kv) (snd kv) acc) d pairs) k =
     (case map_of (rev pairs) k of None \<Rightarrow> map_of d k | Some v \<Rightarrow> Some v)"
  by (induction pairs arbitrary: d) (auto simp: update_conv' split: option.splits)

lemma credentials_dict:
  "map_of d ''login'' = Some l \<Longrightarrow> map_of d ''password'' = Some pw \<Longrightarrow>
   credentials self environ (PDict d) =
     (case format_dn l (auth_base_dn self) of Inl e \<Rightarrow> Inl e | Inr dn \<Rightarrow> Inr (dn, pw))"
  by (simp add: credentials_def get_dn_def split: sum.splits)

lemma credentials_malformed:
  "(\<exists>a. identity = Atom a) \<or> (\<exists>xs. identity = PList xs)
     \<or> (\<exists>d. identity = PDict d \<and> (map_of d ''login'' = None \<or> map_of d ''password'' = None)) \<Longrightarrow>
   \<exists>e. credentials self environ identity = Inl e \<and> caught_by_authenticate e"
  by (auto simp: credentials_def get_dn_def split: option.splits sum.splits exn.splits
      dest: format_dn_raises)

lemma authenticate_undecodable:
  assumes "map_of d ''login'' = Some l" "map_of d ''password'' = Some pw"
    and "format_dn l (auth_base_dn self) = Inl e"
  shows "authenticate self environ (PDict d) = (Inr None, [])"
  using assms format_dn_raises [OF assms(3)]
  by (simp add: authenticate_def credentials_dict)

lemma authenticate_bind_ok:
  assumes "map_of d ''login'' = Some l" "map_of d ''password'' = Some pw"
    and "bind_method (auth_ldap_connection self) = Some bind"
    and "format_dn l (auth_base_dn self) = Inr dn"
    and "bind dn pw = Inr u"
  shows "authenticate self environ (PDict d) = (Inr (Some dn), [BindCall dn pw])"
  using assms by (simp add: authenticate_def credentials_dict)

lemma authenticate_bind_raises:
  assumes "map_of d ''login'' = Some l" "map_of d ''password'' = Some pw"
    and "bind_method (auth_ldap_connection self) = Some bind"
    and "format_dn l (auth_base_dn self) = Inr dn"
    and "bind dn pw = Inl e"
  shows "authenticate self environ (PDict d) =
     ((if is_ldap_error e then Inr None else Inl e), [BindCall dn pw])"
  using assms by (cases e) (simp_all add: authenticate_def credentials_dict)

lemma authenticate_bind_cases:
  assumes h1: "map_of d ''login'' = Some l" and h2: "map_of d ''password'' = Some pw"
    and h3: "bind_method (auth_ldap_connection self) = Some bind"
    and h4: "format_dn l (auth_base_dn self) = Inr dn"
  shows "fst (authenticate self environ (PDict d)) =
     (case bind dn pw of
        Inr u \<Rightarrow> Inr (Some dn)
      | Inl e \<Rightarrow> (if is_ldap_error e then Inr None else Inl e))"
proof (cases "bind dn pw")
  case (Inl e)
  from authenticate_bind_raises [OF h1 h2 h3 h4 this]
  have "fst (authenticate self environ (PDict d)) = (if is_ldap_error e then Inr None else Inl e)"
    by (simp only: fst_conv)
  then show ?thesis by (simp only: Inl sum.case)
next
  case (Inr u)
  from authenticate_bind_ok [OF h1 h2 h3 h4 this]
  have "fst (authenticate self environ (PDict d)) = Inr (Some dn)"
    by (simp only: fst_conv)
  then show ?thesis by (simp only: Inr sum.case)
qed

lemma add_metadata_search:
  assumes "search_method (attr_ldap_connection self) = Some search"
  shows "add_metadata self environ (PDict d) =
     (let userid = (case map_of d ''repoze.who.userid'' of None \<Rightarrow> PNone | Some v \<Rightarrow> v);
          call = SearchCall userid SCOPE_BASE (attr_filterstr self) (attr_attributes self)
      in case search userid SCOPE_BASE (attr_filterstr self) (attr_attributes self) of
           Inr pairs \<Rightarrow>
             (Inr (), PDict (foldl (\<lambda>acc kv. AList.update (fst kv) (snd kv) acc) d pairs), [call])
         | Inl e \<Rightarrow>
             (if is_ldap_error e
              then (case logger_warn environ (''Cannot add metadata: '' @ (case e of LDAPError m \<Rightarrow> m | _ \<Rightarrow> [])) of
                      Inl e' \<Rightarrow> (Inl e', PDict d, [call])
                    | Inr evs \<Rightarrow> (Inr (), PDict d, call # evs))
              else (Inl e, PDict d, [call])))"
proof (cases "search (case map_of d ''repoze.who.userid'' of None \<Rightarrow> PNone | Some v \<Rightarrow> v)
          SCOPE_BASE (attr_filterstr self) (attr_attributes self)")
  case (Inl e)
  then show ?thesis using assms
    by (cases e) (simp_all add: add_metadata_def Let_def)
next
  case (Inr pairs)
  then show ?thesis using assms
    by (simp add: add_metadata_def Let_def write_pairs_dict)
qed

lemma add_metadata_searches:
  assumes "search_method (attr_ldap_connection self) = Some search"
  shows "filter is_search (snd (snd (add_metadata self environ (PDict d)))) =
     [SearchCall (case map_of d ''repoze.who.userid'' of None \<Rightarrow> PNone | Some v \<Rightarrow> v)
        SCOPE_BASE (attr_filterstr self) (attr_attributes self)]"
proof -
  have warn: "\<And>m evs. logger_warn environ m = Inr evs \<Longrightarrow> filter is_search evs = []"
    by (auto dest: logger_warn_events)
  show ?thesis
    unfolding add_metadata_search [OF assms] Let_def
    by (auto split: sum.splits simp: warn)
qed

lemma LDAPAttributesPlugin_fields:
  assumes "LDAPAttributesPlugin initialize ldap_connection attributes filterstr = Inr self"
  shows "attr_filterstr self = filterstr \<and> normalise_attributes attributes = Inr (attr_attributes self)"
  using assms by (auto simp: LDAPAttributesPlugin_def split: sum.splits)

section \<open>Derivation of the distinguished name\<close>

text \<open>
  C1, as the claim states it, fails for a byte string that is not ASCII: the format is
  a unicode string, so a byte-string login is decoded, and the two bytes of a UTF-8
  encoded accented letter make \<^verbatim>\<open>_get_dn\<close> raise
  \<^verbatim>\<open>UnicodeDecodeError\<close> instead of returning a name.
\<close>

theorem get_dn_counterexample:
  "get_dn \<lparr>auth_ldap_connection = Handle example_conn,
       auth_base_dn = PStr ''ou=developers,dc=gnu,dc=org''\<rparr> example_environ
     (PDict [(''login'', PStr [CHR 0xC3, CHR 0xA9])])
   = Inl UnicodeDecodeError"
  by (simp add: get_dn_def format_dn_def ascii_decode_def is_ascii_Cons is_ascii_Nil)

text \<open>
  C1, amended: for every login L and base B that are unicode strings or byte strings of
  ASCII characters, \<^verbatim>\<open>_get_dn\<close> returns exactly the unicode string
  \<^verbatim>\<open>"uid=" + L + "," + B\<close>. The function takes no connection outcome and yields no
  event, so the result depends on the login and the base only, whatever the environment,
  the connection of the plugin and the other entries of the record are. In particular
  login \<^verbatim>\<open>rms\<close> and base \<^verbatim>\<open>ou=developers,dc=gnu,dc=org\<close> give
  \<^verbatim>\<open>uid=rms,ou=developers,dc=gnu,dc=org\<close>. A login or a base that is a byte
  string with a byte above 127 makes it raise \<^verbatim>\<open>UnicodeDecodeError\<close>.
\<close>

theorem get_dn_concat:
  "(map_of d ''login'' = Some login
      \<and> (login = PUnicode l \<or> (\<exists>s. login = PStr s \<and> is_ascii s \<and> l = ustr s))
      \<and> (base_dn = PUnicode b \<or> (\<exists>s. base_dn = PStr s \<and> is_ascii s \<and> b = ustr s))
    \<longrightarrow> get_dn \<lparr>auth_ldap_connection = c, auth_base_dn = base_dn\<rparr> environ (PDict d)
        = Inr (ustr ''uid='' @ l @ ustr '','' @ b))
   \<and> (map_of d ''login'' = Some login
      \<and> ((\<exists>s. login = PStr s \<and> \<not> is_ascii s) \<or> (\<exists>s. base_dn = PStr s \<and> \<not> is_ascii s))
    \<longrightarrow> get_dn \<lparr>auth_ldap_connection = c, auth_base_dn = base_dn\<rparr> environ (PDict d)
        = Inl UnicodeDecodeError)
   \<and> get_dn \<lparr>auth_ldap_connection = c, auth_base_dn = PStr ''ou=developers,dc=gnu,dc=org''\<rparr>
        environ (PDict [(''login'', PStr ''rms'')])
        = Inr (ustr ''uid=rms,ou=developers,dc=gnu,dc=org'')"
proof (intro conjI impI)
  assume h: "map_of d ''login'' = Some login
      \<and> (login = PUnicode l \<or> (\<exists>s. login = PStr s \<and> is_ascii s \<and> l = ustr s))
      \<and> (base_dn = PUnicode b \<or> (\<exists>s. base_dn = PStr s \<and> is_ascii s \<and> b = ustr s))"
  then have "format_dn login base_dn = Inr (ustr ''uid='' @ l @ ustr '','' @ b)"
    by (intro format_dn_text) simp_all
  with h show "get_dn \<lparr>auth_ldap_connection = c, auth_base_dn = base_dn\<rparr> environ (PDict d)
        = Inr (ustr ''uid='' @ l @ ustr '','' @ b)"
    by (simp add: get_dn_def)
next
  assume h: "map_of d ''login'' = Some login
      \<and> ((\<exists>s. login = PStr s \<and> \<not> is_ascii s) \<or> (\<exists>s. base_dn = PStr s \<and> \<not> is_ascii s))"
  then have "format_dn login base_dn = Inl UnicodeDecodeError"
    by (intro format_dn_undecodable) simp
  with h show "get_dn \<lparr>auth_ldap_connection = c, auth_base_dn = base_dn\<rparr> environ (PDict d)
        = Inl UnicodeDecodeError"
    by (simp add: get_dn_def)
next
  show "get_dn \<lparr>auth_ldap_connection = c, auth_base_dn = PStr ''ou=developers,dc=gnu,dc=org''\<rparr>
        environ (PDict [(''login'', PStr ''rms'')])
        = Inr (ustr ''uid=rms,ou=developers,dc=gnu,dc=org'')"
    by (simp add: get_dn_def format_dn_def ascii_decode_def is_ascii_Cons is_ascii_Nil
        ustr_append [symmetric])
qed

theorem get_dn_concat_witness:
  "(map_of [(''password'', PStr ''secret''), (''login'', PUnicode [106, 233])] ''login''
       = Some (PUnicode [106, 233])
     \<and> (PUnicode [106, 233] = PUnicode [106, 233]
         \<or> (\<exists>s. PUnicode [106, 233] = PStr s \<and> is_ascii s \<and> [106, 233] = ustr s))
     \<and> (PStr ''ou=employees,dc=example,dc=org'' = PUnicode (ustr ''ou=employees,dc=example,dc=org'')
         \<or> (\<exists>s. PStr ''ou=employees,dc=example,dc=org'' = PStr s \<and> is_ascii s
               \<and> ustr ''ou=employees,dc=example,dc=org'' = ustr s)))
   \<and> get_dn \<lparr>auth_ldap_connection = Data (Atom PNone),
         auth_base_dn = PStr ''ou=employees,dc=example,dc=org''\<rparr>
        Map.empty (PDict [(''password'', PStr ''secret''), (''login'', PUnicode [106, 233])])
        = Inr (ustr ''uid='' @ [106, 233] @ ustr '','' @ ustr ''ou=employees,dc=example,dc=org'')
   \<and> (map_of [(''login'', PStr [CHR 0xC3, CHR 0xA9])] ''login'' = Some (PStr [CHR 0xC3, CHR 0xA9])
     \<and> ((\<exists>s. PStr [CHR 0xC3, CHR 0xA9] = PStr s \<and> \<not> is_ascii s)
         \<or> (\<exists>s. PStr ''ou=employees,dc=example,dc=org'' = PStr s \<and> \<not> is_ascii s)))
   \<and> get_dn \<lparr>auth_ldap_connection = Data (Atom PNone),
         auth_base_dn = PStr ''ou=employees,dc=example,dc=org''\<rparr>
        Map.empty (PDict [(''login'', PStr [CHR 0xC3, CHR 0xA9])])
        = Inl UnicodeDecodeError"
proof -
  let ?base = "PStr ''ou=employees,dc=example,dc=org''"
  let ?self = "\<lparr>auth_ldap_connection = Data (Atom PNone), auth_base_dn = ?base\<rparr>"
  let ?d = "[(''password'', PStr ''secret''), (''login'', PUnicode [106, 233])]"
  let ?e = "[(''login'', PStr [CHR 0xC3, CHR 0xA9])]"
  have ascii: "is_ascii ''ou=employees,dc=example,dc=org''"
    by (simp add: is_ascii_Cons is_ascii_Nil)
  have decoded: "map_of ?d ''login'' = Some (PUnicode [106, 233])
     \<and> (PUnicode [106, 233] = PUnicode [106, 233]
         \<or> (\<exists>s. PUnicode [106, 233] = PStr s \<and> is_ascii s \<and> [106, 233] = ustr s))
     \<and> (?base = PUnicode (ustr ''ou=employees,dc=example,dc=org'')
         \<or> (\<exists>s. ?base = PStr s \<and> is_ascii s \<and> ustr ''ou=employees,dc=example,dc=org'' = ustr s))"
    using ascii by simp
  have bytes: "map_of ?e ''login'' = Some (PStr [CHR 0xC3, CHR 0xA9])
     \<and> ((\<exists>s. PStr [CHR 0xC3, CHR 0xA9] = PStr s \<and> \<not> is_ascii s)
         \<or> (\<exists>s. ?base = PStr s \<and> \<not> is_ascii s))"
    by (simp add: is_ascii_Cons is_ascii_Nil)
  have name: "get_dn ?self Map.empty (PDict ?d)
        = Inr (ustr ''uid='' @ [106, 233] @ ustr '','' @ ustr ''ou=employees,dc=example,dc=org'')"
    using get_dn_concat [of ?d "PUnicode [106, 233]" "[106, 233]" ?base
        "ustr ''ou=employees,dc=example,dc=org''" "Data (Atom PNone)" Map.empty,
        THEN conjunct1] decoded
    by (rule mp)
  have raised: "get_dn ?self Map.empty (PDict ?e) = Inl UnicodeDecodeError"
    using get_dn_concat [of ?e "PStr [CHR 0xC3, CHR 0xA9]" "[106, 233]" ?base
        "ustr ''ou=employees,dc=example,dc=org''" "Data (Atom PNone)" Map.empty,
        THEN conjunct2, THEN conjunct1] bytes
    by (rule mp)
  show ?thesis
    by (rule conjI [OF decoded conjI [OF name conjI [OF bytes raised]]])
qed

section \<open>Authentication\<close>

text \<open>
  C2, as the claim states it, fails: an exception of the bind operation that is not an
  \<^verbatim>\<open>LDAPError\<close> is not caught. With the example connection, a record whose
  password is \<^verbatim>\<open>None\<close> makes the bind raise \<^verbatim>\<open>TypeError\<close>, and
  \<^verbatim>\<open>authenticate\<close> raises it to the caller.
\<close>

theorem authenticate_counterexample:
  "authenticate \<lparr>auth_ldap_connection = Handle example_conn,
       auth_base_dn = PStr ''ou=developers,dc=gnu,dc=org''\<rparr> example_environ
     (PDict [(''login'', PStr ''rms''), (''password'', PNone)])
   = (Inl TypeError, [BindCall (ustr ''uid=rms,ou=developers,dc=gnu,dc=org'') PNone])"
  by (simp add: authenticate_def credentials_def get_dn_def format_dn_def ascii_decode_def
      is_ascii_Cons is_ascii_Nil ustr_append [symmetric] example_conn_def example_bind_def)

text \<open>
  C2, amended: for every environment and every credential record, \<^verbatim>\<open>authenticate\<close>
  returns \<^verbatim>\<open>None\<close>, without any event, when the record is not a mapping or lacks
  the login or the password, and also when the name cannot be computed from the login and
  the base. When the name is computed, the password is present and the connection has
  \<^verbatim>\<open>simple_bind_s\<close>, it returns the computed name if and only if the bind returns
  normally, returns \<^verbatim>\<open>None\<close> when the bind raises an \<^verbatim>\<open>LDAPError\<close>, and
  lets an exception of any other class reach the caller.
\<close>

theorem authenticate_outcomes:
  "((\<exists>a. identity = Atom a) \<or> (\<exists>xs. identity = PList xs)
      \<or> (\<exists>d. identity = PDict d \<and> (map_of d ''login'' = None \<or> map_of d ''password'' = None))
     \<longrightarrow> authenticate self environ identity = (Inr None, []))
   \<and> (map_of d ''login'' = Some l \<and> map_of d ''password'' = Some pw
        \<and> format_dn l (auth_base_dn self) = Inl e
     \<longrightarrow> authenticate self environ (PDict d) = (Inr None, []))
   \<and> (map_of d ''login'' = Some l \<and> map_of d ''password'' = Some pw
        \<and> bind_method (auth_ldap_connection self) = Some bind
        \<and> format_dn l (auth_base_dn self) = Inr dn
     \<longrightarrow> (fst (authenticate self environ (PDict d)) = Inr (Some dn) \<longleftrightarrow> bind dn pw = Inr ())
       \<and> (\<forall>m. bind dn pw = Inl (LDAPError m) \<longrightarrow> fst (authenticate self environ (PDict d)) = Inr None)
       \<and> (\<forall>e. bind dn pw = Inl e \<and> \<not> is_ldap_error e
              \<longrightarrow> fst (authenticate self environ (PDict d)) = Inl e))"
proof (intro conjI; rule impI)
  assume "(\<exists>a. identity = Atom a) \<or> (\<exists>xs. identity = PList xs)
      \<or> (\<exists>d. identity = PDict d \<and> (map_of d ''login'' = None \<or> map_of d ''password'' = None))"
  from credentials_malformed [OF this]
  obtain e where "credentials self environ identity = Inl e" "caught_by_authenticate e"
    by blast
  then show "authenticate self environ identity = (Inr None, [])"
    by (simp add: authenticate_def)
next
  assume h: "map_of d ''login'' = Some l \<and> map_of d ''password'' = Some pw
        \<and> format_dn l (auth_base_dn self) = Inl e"
  have h1: "map_of d ''login'' = Some l" using h by (rule conjunct1)
  have h2: "map_of d ''password'' = Some pw" using h by (rule conjunct2 [THEN conjunct1])
  have h3: "format_dn l (auth_base_dn self) = Inl e" using h by (rule conjunct2 [THEN conjunct2])
  show "authenticate self environ (PDict d) = (Inr None, [])"
    by (rule authenticate_undecodable [OF h1 h2 h3])
next
  assume h: "map_of d ''login'' = Some l \<and> map_of d ''password'' = Some pw
        \<and> bind_method (auth_ldap_connection self) = Some bind
        \<and> format_dn l (auth_base_dn self) = Inr dn"
  have h1: "map_of d ''login'' = Some l" using h by (rule conjunct1)
  have h2: "map_of d ''password'' = Some pw" using h by (rule conjunct2 [THEN conjunct1])
  have h3: "bind_method (auth_ldap_connection self) = Some bind"
    using h by (rule conjunct2 [THEN conjunct2, THEN conjunct1])
  have h4: "format_dn l (auth_base_dn self) = Inr dn"
    using h by (rule conjunct2 [THEN conjunct2, THEN conjunct2])
  define r where "r = fst (authenticate self environ (PDict d))"
  define b where "b = bind dn pw"
  have c: "r = (case b of Inr u \<Rightarrow> Inr (Some dn)
                | Inl e \<Rightarrow> (if is_ldap_error e then Inr None else Inl e))"
    unfolding r_def b_def by (rule authenticate_bind_cases [OF h1 h2 h3 h4])
  have "(r = Inr (Some dn) \<longleftrightarrow> b = Inr ())
       \<and> (\<forall>m. b = Inl (LDAPError m) \<longrightarrow> r = Inr None)
       \<and> (\<forall>e. b = Inl e \<and> \<not> is_ldap_error e \<longrightarrow> r = Inl e)"
    unfolding c by (cases b) auto
  then show "(fst (authenticate self environ (PDict d)) = Inr (Some dn) \<longleftrightarrow> bind dn pw = Inr ())
       \<and> (\<forall>m. bind dn pw = Inl (LDAPError m) \<longrightarrow> fst (authenticate self environ (PDict d)) = Inr None)
       \<and> (\<forall>e. bind dn pw = Inl e \<and> \<not> is_ldap_error e
              \<longrightarrow> fst (authenticate self environ (PDict d)) = Inl e)"
    unfolding r_def b_def .
qed

theorem authenticate_outcomes_witness:
  "authenticate \<lparr>auth_ldap_connection = Handle example_conn,
       auth_base_dn = PStr ''ou=developers,dc=gnu,dc=org''\<rparr> example_environ
     (PDict [(''login'', PStr ''rms'')]) = (Inr None, [])
   \<and> (map_of [(''login'', PStr [CHR 0xC3, CHR 0xA9]), (''password'', PStr ''freedom'')] ''login''
        = Some (PStr [CHR 0xC3, CHR 0xA9])
      \<and> map_of [(''login'', PStr [CHR 0xC3, CHR 0xA9]), (''password'', PStr ''freedom'')] ''password''
          = Some (PStr ''freedom'')
      \<and> format_dn (PStr [CHR 0xC3, CHR 0xA9]) (auth_base_dn
            \<lparr>auth_ldap_connection = Handle example_conn,
             auth_base_dn = PStr ''ou=developers,dc=gnu,dc=org''\<rparr>) = Inl UnicodeDecodeError)
   \<and> authenticate \<lparr>auth_ldap_connection = Handle example_conn,
       auth_base_dn = PStr ''ou=developers,dc=gnu,dc=org''\<rparr> example_environ
     (PDict [(''login'', PStr [CHR 0xC3, CHR 0xA9]), (''password'', PStr ''freedom'')])
      = (Inr None, [])
   \<and> (map_of [(''login'', PStr ''rms''), (''password'', PStr ''freedom'')] ''login'' = Some (PStr ''rms'')
      \<and> map_of [(''login'', PStr ''rms''), (''password'', PStr ''freedom'')] ''password''
          = Some (PStr ''freedom'')
      \<and> bind_method (auth_ldap_connection \<lparr>auth_ldap_connection = Handle example_conn,
            auth_base_dn = PStr ''ou=developers,dc=gnu,dc=org''\<rparr>) = Some example_bind
      \<and> format_dn (PStr ''rms'') (auth_base_dn
            \<lparr>auth_ldap_connection = Handle example_conn,
             auth_base_dn = PStr ''ou=developers,dc=gnu,dc=org''\<rparr>)
          = Inr (ustr ''uid=rms,ou=developers,dc=gnu,dc=org''))
   \<and> example_bind (ustr ''uid=rms,ou=developers,dc=gnu,dc=org'') (PStr ''freedom'') = Inr ()
   \<and> fst (authenticate \<lparr>auth_ldap_connection = Handle example_conn,
       auth_base_dn = PStr ''ou=developers,dc=gnu,dc=org''\<rparr> example_environ
     (PDict [(''login'', PStr ''rms''), (''password'', PStr ''freedom'')]))
      = Inr (Some (ustr ''uid=rms,ou=developers,dc=gnu,dc=org''))"
proof -
  let ?self = "\<lparr>auth_ldap_connection = Handle example_conn,
       auth_base_dn = PStr ''ou=developers,dc=gnu,dc=org''\<rparr>"
  let ?d = "[(''login'', PStr ''rms''), (''password'', PStr ''freedom'')]"
  let ?u = "[(''login'', PStr [CHR 0xC3, CHR 0xA9]), (''password'', PStr ''freedom'')]"
  let ?dn = "ustr ''uid=rms,ou=developers,dc=gnu,dc=org''"
  note outcomes = authenticate_outcomes [of "PDict [(''login'', PStr ''rms'')]" ?self
      example_environ ?d "PStr ''rms''" "PStr ''freedom''" UnicodeDecodeError example_bind ?dn]
  note undecodable = authenticate_outcomes [of "PDict [(''login'', PStr ''rms'')]" ?self
      example_environ ?u "PStr [CHR 0xC3, CHR 0xA9]" "PStr ''freedom''" UnicodeDecodeError
      example_bind ?dn]
  have malformed: "(\<exists>a. PDict [(''login'', PStr ''rms'')] = Atom a)
      \<or> (\<exists>xs. PDict [(''login'', PStr ''rms'')] = PList xs)
      \<or> (\<exists>d. PDict [(''login'', PStr ''rms'')] = PDict d
            \<and> (map_of d ''login'' = None \<or> map_of d ''password'' = None))"
    by simp
  have bytes: "map_of ?u ''login'' = Some (PStr [CHR 0xC3, CHR 0xA9])
      \<and> map_of ?u ''password'' = Some (PStr ''freedom'')
      \<and> format_dn (PStr [CHR 0xC3, CHR 0xA9]) (auth_base_dn ?self) = Inl UnicodeDecodeError"
    by (simp add: format_dn_def ascii_decode_def is_ascii_Cons is_ascii_Nil)
  have hyp: "map_of ?d ''login'' = Some (PStr ''rms'')
      \<and> map_of ?d ''password'' = Some (PStr ''freedom'')
      \<and> bind_method (auth_ldap_connection ?self) = Some example_bind
      \<and> format_dn (PStr ''rms'') (auth_base_dn ?self) = Inr ?dn"
    by (simp add: example_conn_def format_dn_def ascii_decode_def is_ascii_Cons is_ascii_Nil
        ustr_append [symmetric])
  have absent: "authenticate ?self example_environ (PDict [(''login'', PStr ''rms'')]) = (Inr None, [])"
    using outcomes [THEN conjunct1] malformed by (rule mp)
  have refused: "authenticate ?self example_environ (PDict ?u) = (Inr None, [])"
    using undecodable [THEN conjunct2, THEN conjunct1] bytes by (rule mp)
  have bound: "example_bind ?dn (PStr ''freedom'') = Inr ()"
    by (simp add: example_bind_def)
  have "fst (authenticate ?self example_environ (PDict ?d)) = Inr (Some ?dn)
      \<longleftrightarrow> example_bind ?dn (PStr ''freedom'') = Inr ()"
    using outcomes [THEN conjunct2, THEN conjunct2, THEN mp, OF hyp] by (rule conjunct1)
  then have granted: "fst (authenticate ?self example_environ (PDict ?d)) = Inr (Some ?dn)"
    using bound by (rule iffD2)
  show ?thesis
    by (rule conjI [OF absent conjI [OF bytes conjI [OF refused conjI [OF hyp
          conjI [OF bound granted]]]]])
qed

section \<open>Resolving the connection\<close>

text \<open>
  C3, as the claim states it, fails: only \<^verbatim>\<open>None\<close> is rejected. The empty
  string is a string like any other and is handed to \<^verbatim>\<open>ldap.initialize\<close>;
  no \<^verbatim>\<open>ValueError\<close> is raised for it.
\<close>

theorem make_ldap_connection_counterexample:
  "make_ldap_connection example_initialize (Data (Atom (PStr []))) = Inr (Handle example_conn)"
  by (simp add: example_initialize_def)

text \<open>
  C3, amended: a connection handle is returned unchanged, and so is every value that is
  neither a string nor \<^verbatim>\<open>None\<close>; for a string of either type, the empty one
  included, the result is that of \<^verbatim>\<open>ldap.initialize\<close> for that address, a new
  connection or the exception it raises; \<^verbatim>\<open>None\<close> fails with the
  \<^verbatim>\<open>ValueError\<close> of the source. An exception comes from \<^verbatim>\<open>None\<close> or
  from \<^verbatim>\<open>ldap.initialize\<close>, and from nowhere else.
\<close>

theorem make_ldap_connection_cases:
  "make_ldap_connection initialize (Handle c) = Inr (Handle c)
   \<and> make_ldap_connection initialize (Data (Atom (PStr url)))
       = (case initialize (PStr url) of Inl e \<Rightarrow> Inl e | Inr h \<Rightarrow> Inr (Handle h))
   \<and> make_ldap_connection initialize (Data (Atom (PUnicode uurl)))
       = (case initialize (PUnicode uurl) of Inl e \<Rightarrow> Inl e | Inr h \<Rightarrow> Inr (Handle h))
   \<and> make_ldap_connection initialize (Data (Atom PNone))
       = Inl (ValueError ''An LDAP connection must be specified'')
   \<and> (\<forall>e. make_ldap_connection initialize x = Inl e \<longrightarrow>
         (x = Data (Atom PNone) \<and> e = ValueError ''An LDAP connection must be specified'')
         \<or> (\<exists>a. x = Data (Atom (PStr a)) \<and> initialize (PStr a) = Inl e)
         \<or> (\<exists>a. x = Data (Atom (PUnicode a)) \<and> initialize (PUnicode a) = Inl e))
   \<and> (x \<noteq> Data (Atom PNone) \<and> (\<forall>a. x \<noteq> Data (Atom (PStr a)))
        \<and> (\<forall>a. x \<noteq> Data (Atom (PUnicode a)))
        \<longrightarrow> make_ldap_connection initialize x = Inr x)"
proof -
  have raises: "\<forall>e. make_ldap_connection initialize x = Inl e \<longrightarrow>
         (x = Data (Atom PNone) \<and> e = ValueError ''An LDAP connection must be specified'')
         \<or> (\<exists>a. x = Data (Atom (PStr a)) \<and> initialize (PStr a) = Inl e)
         \<or> (\<exists>a. x = Data (Atom (PUnicode a)) \<and> initialize (PUnicode a) = Inl e)"
    by (cases "(initialize, x)" rule: make_ldap_connection.cases)
      (auto split: sum.splits)
  have other: "x \<noteq> Data (Atom PNone) \<and> (\<forall>a. x \<noteq> Data (Atom (PStr a)))
        \<and> (\<forall>a. x \<noteq> Data (Atom (PUnicode a)))
        \<longrightarrow> make_ldap_connection initialize x = Inr x"
    by (cases "(initialize, x)" rule: make_ldap_connection.cases) auto
  show ?thesis using raises other by simp
qed

theorem make_ldap_connection_cases_witness:
  "make_ldap_connection example_initialize (Data (Atom PNone))
     = Inl (ValueError ''An LDAP connection must be specified'')
   \<and> (Data (Atom PNone) = Data (Atom PNone)
        \<and> ValueError ''An LDAP connection must be specified''
            = ValueError ''An LDAP connection must be specified''
      \<or> (\<exists>a. Data (Atom PNone) = Data (Atom (PStr a))
            \<and> example_initialize (PStr a) = Inl (ValueError ''An LDAP connection must be specified''))
      \<or> (\<exists>a. Data (Atom PNone) = Data (Atom (PUnicode a))
            \<and> example_initialize (PUnicode a)
                = Inl (ValueError ''An LDAP connection must be specified'')))
   \<and> (Data (PList []) \<noteq> Data (Atom PNone) \<and> (\<forall>a. Data (PList []) \<noteq> Data (Atom (PStr a)))
        \<and> (\<forall>a. Data (PList []) \<noteq> Data (Atom (PUnicode a))))
   \<and> make_ldap_connection example_initialize (Data (PList [])) = Inr (Data (PList []))"
proof -
  note absent = make_ldap_connection_cases
    [of example_initialize example_conn "[]" "[]" "Data (Atom PNone)"]
  note other = make_ldap_connection_cases
    [of example_initialize example_conn "[]" "[]" "Data (PList [])"]
  have none: "make_ldap_connection example_initialize (Data (Atom PNone))
     = Inl (ValueError ''An LDAP connection must be specified'')"
    using absent by (rule conjunct2 [THEN conjunct2, THEN conjunct2, THEN conjunct1])
  have only: "Data (Atom PNone) = Data (Atom PNone)
        \<and> ValueError ''An LDAP connection must be specified''
            = ValueError ''An LDAP connection must be specified''
      \<or> (\<exists>a. Data (Atom PNone) = Data (Atom (PStr a))
            \<and> example_initialize (PStr a) = Inl (ValueError ''An LDAP connection must be specified''))
      \<or> (\<exists>a. Data (Atom PNone) = Data (Atom (PUnicode a))
            \<and> example_initialize (PUnicode a)
                = Inl (ValueError ''An LDAP connection must be specified''))"
    using absent [THEN conjunct2, THEN conjunct2, THEN conjunct2, THEN conjunct2, THEN conjunct1,
        THEN spec] none
    by (rule mp)
  have hyp: "Data (PList []) \<noteq> Data (Atom PNone) \<and> (\<forall>a. Data (PList []) \<noteq> Data (Atom (PStr a)))
        \<and> (\<forall>a. Data (PList []) \<noteq> Data (Atom (PUnicode a)))"
    by simp
  have unchanged: "make_ldap_connection example_initialize (Data (PList [])) = Inr (Data (PList []))"
    using other [THEN conjunct2, THEN conjunct2, THEN conjunct2, THEN conjunct2, THEN conjunct2]
      hyp
    by (rule mp)
  show ?thesis
    by (rule conjI [OF none conjI [OF only conjI [OF hyp unchanged]]])
qed

section \<open>Constructing the authenticator\<close>

text \<open>
  C4, as the claim states it, fails: the constructor tests the base for
  \<^verbatim>\<open>None\<close> only, so an empty base string is accepted.
\<close>

theorem LDAPAuthenticatorPlugin_counterexample:
  "LDAPAuthenticatorPlugin example_initialize (Handle example_conn) (PStr [])
     = Inr \<lparr>auth_ldap_connection = Handle example_conn, auth_base_dn = PStr []\<rparr>"
  by (simp add: LDAPAuthenticatorPlugin_def)

text \<open>
  C4, amended: constructing an authenticator with the base \<^verbatim>\<open>None\<close> fails
  with the \<^verbatim>\<open>ValueError\<close> of the source, whatever the connection is; with any
  other base, the empty string included, and either a connection handle or an address,
  a string of either type, that \<^verbatim>\<open>ldap.initialize\<close> accepts, it succeeds and
  stores the connection and the base.
\<close>

theorem LDAPAuthenticatorPlugin_cases:
  "LDAPAuthenticatorPlugin initialize ldap_connection PNone
     = Inl (ValueError ''A base Distinguished Name must be specified'')
   \<and> (base_dn \<noteq> PNone \<longrightarrow>
        LDAPAuthenticatorPlugin initialize (Handle c) base_dn
          = Inr \<lparr>auth_ldap_connection = Handle c, auth_base_dn = base_dn\<rparr>)
   \<and> (base_dn \<noteq> PNone \<and> initialize (PStr url) = Inr c \<longrightarrow>
        LDAPAuthenticatorPlugin initialize (Data (Atom (PStr url))) base_dn
          = Inr \<lparr>auth_ldap_connection = Handle c, auth_base_dn = base_dn\<rparr>)
   \<and> (base_dn \<noteq> PNone \<and> initialize (PUnicode uurl) = Inr c \<longrightarrow>
        LDAPAuthenticatorPlugin initialize (Data (Atom (PUnicode uurl))) base_dn
          = Inr \<lparr>auth_ldap_connection = Handle c, auth_base_dn = base_dn\<rparr>)"
  by (simp add: LDAPAuthenticatorPlugin_def)

theorem LDAPAuthenticatorPlugin_cases_witness:
  "PStr ''ou=developers,dc=gnu,dc=org'' \<noteq> PNone
   \<and> example_initialize (PStr ''ldap://ldap.gnu.org'') = Inr example_conn
   \<and> example_initialize (PUnicode (ustr ''ldap://ldap.gnu.org'')) = Inr example_conn
   \<and> LDAPAuthenticatorPlugin example_initialize (Handle example_conn) (PStr ''ou=developers,dc=gnu,dc=org'')
       = Inr \<lparr>auth_ldap_connection = Handle example_conn,
              auth_base_dn = PStr ''ou=developers,dc=gnu,dc=org''\<rparr>
   \<and> LDAPAuthenticatorPlugin example_initialize (Data (Atom (PStr ''ldap://ldap.gnu.org'')))
         (PStr ''ou=developers,dc=gnu,dc=org'')
       = Inr \<lparr>auth_ldap_connection = Handle example_conn,
              auth_base_dn = PStr ''ou=developers,dc=gnu,dc=org''\<rparr>
   \<and> LDAPAuthenticatorPlugin example_initialize
         (Data (Atom (PUnicode (ustr ''ldap://ldap.gnu.org''))))
         (PStr ''ou=developers,dc=gnu,dc=org'')
       = Inr \<lparr>auth_ldap_connection = Handle example_conn,
              auth_base_dn = PStr ''ou=developers,dc=gnu,dc=org''\<rparr>"
proof -
  note cases = LDAPAuthenticatorPlugin_cases [of example_initialize "Data (Atom PNone)"
      "PStr ''ou=developers,dc=gnu,dc=org''" example_conn "''ldap://ldap.gnu.org''"
      "ustr ''ldap://ldap.gnu.org''"]
  have base: "PStr ''ou=developers,dc=gnu,dc=org'' \<noteq> PNone" by simp
  have url: "example_initialize (PStr ''ldap://ldap.gnu.org'') = Inr example_conn"
    by (simp add: example_initialize_def)
  have uurl: "example_initialize (PUnicode (ustr ''ldap://ldap.gnu.org'')) = Inr example_conn"
    by (simp add: example_initialize_def)
  have handle: "LDAPAuthenticatorPlugin example_initialize (Handle example_conn)
        (PStr ''ou=developers,dc=gnu,dc=org'')
       = Inr \<lparr>auth_ldap_connection = Handle example_conn,
              auth_base_dn = PStr ''ou=developers,dc=gnu,dc=org''\<rparr>"
    using cases [THEN conjunct2, THEN conjunct1] base by (rule mp)
  have address: "LDAPAuthenticatorPlugin example_initialize (Data (Atom (PStr ''ldap://ldap.gnu.org'')))
         (PStr ''ou=developers,dc=gnu,dc=org'')
       = Inr \<lparr>auth_ldap_connection = Handle example_conn,
              auth_base_dn = PStr ''ou=developers,dc=gnu,dc=org''\<rparr>"
    using cases [THEN conjunct2, THEN conjunct2, THEN conjunct1] conjI [OF base url] by (rule mp)
  have uaddress: "LDAPAuthenticatorPlugin example_initialize
         (Data (Atom (PUnicode (ustr ''ldap://ldap.gnu.org''))))
         (PStr ''ou=developers,dc=gnu,dc=org'')
       = Inr \<lparr>auth_ldap_connection = Handle example_conn,
              auth_base_dn = PStr ''ou=developers,dc=gnu,dc=org''\<rparr>"
    using cases [THEN conjunct2, THEN conjunct2, THEN conjunct2] conjI [OF base uurl] by (rule mp)
  show ?thesis
    by (rule conjI [OF base conjI [OF url conjI [OF uurl conjI [OF handle
          conjI [OF address uaddress]]]]])
qed

section \<open>A connection that cannot bind\<close>

text \<open>
  C5, as the claim states it, fails for a login that is a byte string with a byte above
  127: the name cannot be computed, the first \<^verbatim>\<open>try\<close> block returns
  \<^verbatim>\<open>None\<close>, and the test of the connection with its warning is never reached.
\<close>

theorem authenticate_without_bind_counterexample:
  "authenticate \<lparr>auth_ldap_connection = Handle \<lparr>simple_bind_s = None,
         search_s = Some example_search\<rparr>, auth_base_dn = PStr ''ou=developers,dc=gnu,dc=org''\<rparr>
       example_environ
       (PDict [(''login'', PStr [CHR 0xC3, CHR 0xA9]), (''password'', PStr ''freedom'')])
   = (Inr None, [])"
  by (simp add: authenticate_def credentials_def get_dn_def format_dn_def ascii_decode_def
      is_ascii_Cons is_ascii_Nil)

text \<open>
  C5, amended: for every credential record that has both the login and the password,
  where neither the login nor the base is a byte string with a byte above 127, if the
  connection lacks \<^verbatim>\<open>simple_bind_s\<close>, \<^verbatim>\<open>authenticate\<close> returns
  \<^verbatim>\<open>None\<close> without raising, and the events of the call are exactly one warning
  given to the logger of the environment.
\<close>

theorem authenticate_without_bind:
  assumes "map_of d ''login'' = Some login" and "map_of d ''password'' = Some password"
    and "\<forall>s. login = PStr s \<longrightarrow> is_ascii s"
    and "\<forall>s. auth_base_dn self = PStr s \<longrightarrow> is_ascii s"
    and "bind_method (auth_ldap_connection self) = None"
    and "environ ''repoze.who.logger'' = Some Logger"
  shows "authenticate self environ (PDict d)
           = (Inr None, [Warn ''Cannot bind with the provided LDAP connection object''])
         \<and> length (filter is_warn (snd (authenticate self environ (PDict d)))) = 1"
proof -
  from format_dn_decodable [OF assms(3) assms(4)]
  obtain dn where "format_dn login (auth_base_dn self) = Inr dn"
    by blast
  then show ?thesis
    using assms(1) assms(2) assms(5) assms(6)
    by (simp add: authenticate_def credentials_dict logger_warn_def)
qed

theorem authenticate_without_bind_witness:
  "map_of [(''login'', PStr ''rms''), (''password'', PStr ''freedom'')] ''login'' = Some (PStr ''rms'')
   \<and> map_of [(''login'', PStr ''rms''), (''password'', PStr ''freedom'')] ''password''
       = Some (PStr ''freedom'')
   \<and> is_ascii ''rms''
   \<and> is_ascii ''ou=developers,dc=gnu,dc=org''
   \<and> bind_method (auth_ldap_connection \<lparr>auth_ldap_connection = Handle \<lparr>simple_bind_s = None,
         search_s = Some example_search\<rparr>, auth_base_dn = PStr ''ou=developers,dc=gnu,dc=org''\<rparr>) = None
   \<and> example_environ ''repoze.who.logger'' = Some Logger
   \<and> authenticate \<lparr>auth_ldap_connection = Handle \<lparr>simple_bind_s = None,
         search_s = Some example_search\<rparr>, auth_base_dn = PStr ''ou=developers,dc=gnu,dc=org''\<rparr>
       example_environ (PDict [(''login'', PStr ''rms''), (''password'', PStr ''freedom'')])
       = (Inr None, [Warn ''Cannot bind with the provided LDAP connection object''])"
proof -
  let ?self = "\<lparr>auth_ldap_connection = Handle \<lparr>simple_bind_s = None,
         search_s = Some example_search\<rparr>, auth_base_dn = PStr ''ou=developers,dc=gnu,dc=org''\<rparr>"
  let ?d = "[(''login'', PStr ''rms''), (''password'', PStr ''freedom'')]"
  have l: "map_of ?d ''login'' = Some (PStr ''rms'')" by simp
  have p: "map_of ?d ''password'' = Some (PStr ''freedom'')" by simp
  have login_ascii: "is_ascii ''rms''"
    by (simp add: is_ascii_Cons is_ascii_Nil)
  have base_ascii: "is_ascii ''ou=developers,dc=gnu,dc=org''"
    by (simp add: is_ascii_Cons is_ascii_Nil)
  have la: "\<forall>s. PStr ''rms'' = PStr s \<longrightarrow> is_ascii s"
    using login_ascii by simp
  have ba: "\<forall>s. auth_base_dn ?self = PStr s \<longrightarrow> is_ascii s"
    using base_ascii by simp
  have b: "bind_method (auth_ldap_connection ?self) = None" by simp
  have e: "example_environ ''repoze.who.logger'' = Some Logger"
    by (simp add: example_environ_def)
  have "authenticate ?self example_environ (PDict ?d)
       = (Inr None, [Warn ''Cannot bind with the provided LDAP connection object''])"
    using authenticate_without_bind [of ?d "PStr ''rms''" "PStr ''freedom''" ?self example_environ,
        OF l p la ba b e]
    by (rule conjunct1)
  then show ?thesis
    by (rule conjI [OF l conjI [OF p conjI [OF login_ascii conjI [OF base_ascii
          conjI [OF b conjI [OF e]]]]]])
qed

section \<open>The search of the metadata provider\<close>

text \<open>
  C6: for every identity record that holds the verified identifier U under
  \<^verbatim>\<open>'repoze.who.userid'\<close>, \<^verbatim>\<open>add_metadata\<close> issues exactly one search:
  its base is U, its scope is \<^verbatim>\<open>SCOPE_BASE\<close>, its filter is the filter string
  given to the constructor and its attribute list is the one the constructor stored,
  the normalised form of the attributes given to it. The connection is one that has
  \<^verbatim>\<open>search_s\<close>.
\<close>

theorem add_metadata_one_search:
  assumes "LDAPAttributesPlugin initialize ldap_connection attributes filterstr = Inr self"
    and "map_of d ''repoze.who.userid'' = Some U"
    and "search_method (attr_ldap_connection self) = Some search"
  shows "filter is_search (snd (snd (add_metadata self environ (PDict d))))
           = [SearchCall U SCOPE_BASE filterstr (attr_attributes self)]
         \<and> normalise_attributes attributes = Inr (attr_attributes self)"
  using add_metadata_searches [OF assms(3), of environ d] LDAPAttributesPlugin_fields [OF assms(1)]
    assms(2)
  by simp

theorem add_metadata_one_search_witness:
  "LDAPAttributesPlugin example_initialize (Handle example_conn) (Atom (PStr ''cn,mail''))
       default_filterstr
     = Inr \<lparr>attr_ldap_connection = Handle example_conn,
            attr_attributes = Some [PStr ''cn'', PStr ''mail''],
            attr_filterstr = default_filterstr\<rparr>
   \<and> map_of [(''repoze.who.userid'', PStr ''uid=rms,ou=developers,dc=gnu,dc=org'')]
        ''repoze.who.userid'' = Some (PStr ''uid=rms,ou=developers,dc=gnu,dc=org'')
   \<and> search_method (attr_ldap_connection \<lparr>attr_ldap_connection = Handle example_conn,
            attr_attributes = Some [PStr ''cn'', PStr ''mail''],
            attr_filterstr = default_filterstr\<rparr>) = Some example_search
   \<and> filter is_search (snd (snd (add_metadata \<lparr>attr_ldap_connection = Handle example_conn,
            attr_attributes = Some [PStr ''cn'', PStr ''mail''],
            attr_filterstr = default_filterstr\<rparr> example_environ
          (PDict [(''repoze.who.userid'', PStr ''uid=rms,ou=developers,dc=gnu,dc=org'')]))))
     = [SearchCall (PStr ''uid=rms,ou=developers,dc=gnu,dc=org'') SCOPE_BASE default_filterstr
          (Some [PStr ''cn'', PStr ''mail''])]"
proof -
  let ?self = "\<lparr>attr_ldap_connection = Handle example_conn,
            attr_attributes = Some [PStr ''cn'', PStr ''mail''],
            attr_filterstr = default_filterstr\<rparr>"
  let ?d = "[(''repoze.who.userid'', PStr ''uid=rms,ou=developers,dc=gnu,dc=org'')]"
  have built: "LDAPAttributesPlugin example_initialize (Handle example_conn)
       (Atom (PStr ''cn,mail'')) default_filterstr = Inr ?self"
    by (simp add: LDAPAttributesPlugin_def)
  have userid: "map_of ?d ''repoze.who.userid'' = Some (PStr ''uid=rms,ou=developers,dc=gnu,dc=org'')"
    by simp
  have can_search: "search_method (attr_ldap_connection ?self) = Some example_search"
    by (simp add: example_conn_def)
  have "filter is_search (snd (snd (add_metadata ?self example_environ (PDict ?d))))
     = [SearchCall (PStr ''uid=rms,ou=developers,dc=gnu,dc=org'') SCOPE_BASE default_filterstr
          (attr_attributes ?self)]"
    using add_metadata_one_search [of example_initialize "Handle example_conn"
        "Atom (PStr ''cn,mail'')" default_filterstr ?self ?d
        "PStr ''uid=rms,ou=developers,dc=gnu,dc=org''" example_search example_environ,
        OF built userid can_search]
    by (rule conjunct1)
  then have searched: "filter is_search (snd (snd (add_metadata ?self example_environ (PDict ?d))))
     = [SearchCall (PStr ''uid=rms,ou=developers,dc=gnu,dc=org'') SCOPE_BASE default_filterstr
          (Some [PStr ''cn'', PStr ''mail''])]"
    by simp
  show ?thesis
    by (rule conjI [OF built conjI [OF userid conjI [OF can_search searched]]])
qed

section \<open>Writing the attributes into the identity\<close>

text \<open>
  C7: for every identity record and every list of (name, value) pairs the search
  returns, \<^verbatim>\<open>add_metadata\<close> returns normally and leaves the record with the pairs
  assigned from left to right: a name that occurs in the result has the value of its
  last occurrence, and every name that does not occur in the result has what it had
  before, a value or none.
\<close>

theorem add_metadata_writes:
  assumes "search_method (attr_ldap_connection self) = Some search"
    and "search (case map_of d ''repoze.who.userid'' of None \<Rightarrow> PNone | Some v \<Rightarrow> v)
           SCOPE_BASE (attr_filterstr self) (attr_attributes self) = Inr pairs"
    and "d' = foldl (\<lambda>acc kv. AList.update (fst kv) (snd kv) acc) d pairs"
  shows "fst (add_metadata self environ (PDict d)) = Inr ()
         \<and> fst (snd (add_metadata self environ (PDict d))) = PDict d'
         \<and> (\<forall>k. map_of d' k = (case map_of (rev pairs) k of None \<Rightarrow> map_of d k | Some v \<Rightarrow> Some v))
         \<and> (\<forall>k. k \<notin> fst ` set pairs \<longrightarrow> map_of d' k = map_of d k)"
proof -
  have result: "add_metadata self environ (PDict d) =
      (Inr (), PDict d', [SearchCall (case map_of d ''repoze.who.userid'' of None \<Rightarrow> PNone | Some v \<Rightarrow> v)
          SCOPE_BASE (attr_filterstr self) (attr_attributes self)])"
    unfolding add_metadata_search [OF assms(1)] Let_def assms(2) assms(3) by simp
  have lookup: "\<forall>k. map_of d' k = (case map_of (rev pairs) k of None \<Rightarrow> map_of d k | Some v \<Rightarrow> Some v)"
    unfolding assms(3) by (simp add: map_of_written)
  have frame: "\<forall>k. k \<notin> fst ` set pairs \<longrightarrow> map_of d' k = map_of d k"
  proof (intro allI impI)
    fix k assume "k \<notin> fst ` set pairs"
    then have "map_of (rev pairs) k = None"
      by (simp add: map_of_eq_None_iff)
    with lookup show "map_of d' k = map_of d k" by simp
  qed
  show ?thesis using lookup frame by (simp add: result)
qed

theorem add_metadata_writes_witness:
  "search_method (attr_ldap_connection \<lparr>attr_ldap_connection = Handle example_conn,
        attr_attributes = None, attr_filterstr = default_filterstr\<rparr>) = Some example_search
   \<and> example_search (PStr ''uid=rms,ou=developers,dc=gnu,dc=org'') SCOPE_BASE default_filterstr None
       = Inr [(''cn'', PStr ''Richard''), (''mail'', PStr ''rms@gnu.org''),
              (''cn'', PStr ''Richard Stallman'')]
   \<and> fst (snd (add_metadata \<lparr>attr_ldap_connection = Handle example_conn,
        attr_attributes = None, attr_filterstr = default_filterstr\<rparr> example_environ
        (PDict [(''cn'', PStr ''old''),
                (''repoze.who.userid'', PStr ''uid=rms,ou=developers,dc=gnu,dc=org'')])))
     = PDict [(''cn'', PStr ''Richard Stallman''),
              (''repoze.who.userid'', PStr ''uid=rms,ou=developers,dc=gnu,dc=org''),
              (''mail'', PStr ''rms@gnu.org'')]
   \<and> ''repoze.who.userid'' \<notin> fst ` set [(''cn'', PStr ''Richard''), (''mail'', PStr ''rms@gnu.org''),
              (''cn'', PStr ''Richard Stallman'')]
   \<and> map_of [(''cn'', PStr ''Richard Stallman''),
              (''repoze.who.userid'', PStr ''uid=rms,ou=developers,dc=gnu,dc=org''),
              (''mail'', PStr ''rms@gnu.org'')] ''repoze.who.userid''
     = map_of [(''cn'', PStr ''old''),
                (''repoze.who.userid'', PStr ''uid=rms,ou=developers,dc=gnu,dc=org'')]
         ''repoze.who.userid''"
proof -
  let ?self = "\<lparr>attr_ldap_connection = Handle example_conn,
        attr_attributes = None, attr_filterstr = default_filterstr\<rparr>"
  let ?d = "[(''cn'', PStr ''old''),
             (''repoze.who.userid'', PStr ''uid=rms,ou=developers,dc=gnu,dc=org'')]"
  let ?pairs = "[(''cn'', PStr ''Richard''), (''mail'', PStr ''rms@gnu.org''),
              (''cn'', PStr ''Richard Stallman'')]"
  let ?d' = "[(''cn'', PStr ''Richard Stallman''),
              (''repoze.who.userid'', PStr ''uid=rms,ou=developers,dc=gnu,dc=org''),
              (''mail'', PStr ''rms@gnu.org'')]"
  have can_search: "search_method (attr_ldap_connection ?self) = Some example_search"
    by (simp add: example_conn_def)
  have found: "example_search (PStr ''uid=rms,ou=developers,dc=gnu,dc=org'') SCOPE_BASE
      default_filterstr None = Inr ?pairs"
    by (simp add: example_search_def)
  have found': "example_search
      (case map_of ?d ''repoze.who.userid'' of None \<Rightarrow> PNone | Some v \<Rightarrow> v)
      SCOPE_BASE (attr_filterstr ?self) (attr_attributes ?self) = Inr ?pairs"
    using found by simp
  have written: "?d' = foldl (\<lambda>acc kv. AList.update (fst kv) (snd kv) acc) ?d ?pairs"
    by simp
  note writes = add_metadata_writes [of ?self example_search ?d ?pairs ?d' example_environ,
      OF can_search found' written]
  have identity: "fst (snd (add_metadata ?self example_environ (PDict ?d))) = PDict ?d'"
    using writes by (rule conjunct2 [THEN conjunct1])
  have unrelated: "''repoze.who.userid'' \<notin> fst ` set ?pairs"
    by simp
  have kept: "map_of ?d' ''repoze.who.userid'' = map_of ?d ''repoze.who.userid''"
    using writes [THEN conjunct2, THEN conjunct2, THEN conjunct2, THEN spec] unrelated
    by (rule mp)
  show ?thesis
    by (rule conjI [OF can_search conjI [OF found conjI [OF identity conjI [OF unrelated kept]]]])
qed

section \<open>A failing search\<close>

text \<open>
  C8, as the claim states it, fails: \<^verbatim>\<open>add_metadata\<close> catches
  \<^verbatim>\<open>ldap.LDAPError\<close> and nothing else. With the example connection and an
  identity that has no \<^verbatim>\<open>'repoze.who.userid'\<close>, the search is called with the
  base \<^verbatim>\<open>None\<close>, raises \<^verbatim>\<open>TypeError\<close>, and the caller gets the exception.
\<close>

theorem add_metadata_counterexample:
  "add_metadata \<lparr>attr_ldap_connection = Handle example_conn, attr_attributes = None,
       attr_filterstr = default_filterstr\<rparr> example_environ (PDict [(''cn'', PStr ''old'')])
   = (Inl TypeError, PDict [(''cn'', PStr ''old'')],
      [SearchCall PNone SCOPE_BASE ''(objectClass=*)'' None])"
  by (simp add: add_metadata_def example_conn_def example_search_def default_filterstr_def)

text \<open>
  C8, amended: when the search raises an \<^verbatim>\<open>LDAPError\<close>, \<^verbatim>\<open>add_metadata\<close>
  gives exactly one warning to the logger of the environment, returns normally and
  leaves the identity record as it was; an exception of another class raised by the
  search reaches the caller.
\<close>

theorem add_metadata_search_failure:
  assumes "search_method (attr_ldap_connection self) = Some search"
    and "userid = (case map_of d ''repoze.who.userid'' of None \<Rightarrow> PNone | Some v \<Rightarrow> v)"
  shows "(search userid SCOPE_BASE (attr_filterstr self) (attr_attributes self) = Inl (LDAPError msg)
            \<and> environ ''repoze.who.logger'' = Some Logger
          \<longrightarrow> add_metadata self environ (PDict d)
               = (Inr (), PDict d,
                  [SearchCall userid SCOPE_BASE (attr_filterstr self) (attr_attributes self),
                   Warn (''Cannot add metadata: '' @ msg)]))
         \<and> (search userid SCOPE_BASE (attr_filterstr self) (attr_attributes self) = Inl e
            \<and> \<not> is_ldap_error e
          \<longrightarrow> fst (add_metadata self environ (PDict d)) = Inl e)"
  unfolding add_metadata_search [OF assms(1)] Let_def assms(2)
  by (simp add: logger_warn_def)

theorem add_metadata_search_failure_witness:
  "search_method (attr_ldap_connection \<lparr>attr_ldap_connection = Handle example_conn,
        attr_attributes = None, attr_filterstr = default_filterstr\<rparr>) = Some example_search
   \<and> (example_search (PStr ''uid=esr,ou=developers,dc=gnu,dc=org'') SCOPE_BASE default_filterstr None
         = Inl (LDAPError ''No such object'')
       \<and> example_environ ''repoze.who.logger'' = Some Logger)
   \<and> add_metadata \<lparr>attr_ldap_connection = Handle example_conn,
        attr_attributes = None, attr_filterstr = default_filterstr\<rparr> example_environ
        (PDict [(''repoze.who.userid'', PStr ''uid=esr,ou=developers,dc=gnu,dc=org'')])
     = (Inr (), PDict [(''repoze.who.userid'', PStr ''uid=esr,ou=developers,dc=gnu,dc=org'')],
        [SearchCall (PStr ''uid=esr,ou=developers,dc=gnu,dc=org'') SCOPE_BASE default_filterstr None,
         Warn ''Cannot add metadata: No such object''])
   \<and> (example_search PNone SCOPE_BASE default_filterstr None = Inl TypeError
       \<and> \<not> is_ldap_error TypeError)
   \<and> fst (add_metadata \<lparr>attr_ldap_connection = Handle example_conn,
        attr_attributes = None, attr_filterstr = default_filterstr\<rparr> example_environ
        (PDict [(''cn'', PStr ''old'')])) = Inl TypeError"
proof -
  let ?self = "\<lparr>attr_ldap_connection = Handle example_conn,
        attr_attributes = None, attr_filterstr = default_filterstr\<rparr>"
  let ?esr = "PStr ''uid=esr,ou=developers,dc=gnu,dc=org''"
  let ?d = "[(''repoze.who.userid'', ?esr)]"
  let ?c = "[(''cn'', PStr ''old'')]"
  have can_search: "search_method (attr_ldap_connection ?self) = Some example_search"
    by (simp add: example_conn_def)
  have target: "?esr = (case map_of ?d ''repoze.who.userid'' of None \<Rightarrow> PNone | Some v \<Rightarrow> v)"
    by simp
  have no_target: "PNone = (case map_of ?c ''repoze.who.userid'' of None \<Rightarrow> PNone | Some v \<Rightarrow> v)"
    by simp
  have unknown: "example_search ?esr SCOPE_BASE default_filterstr None
         = Inl (LDAPError ''No such object'')
       \<and> example_environ ''repoze.who.logger'' = Some Logger"
    by (simp add: example_search_def example_environ_def)
  have unknown': "example_search ?esr SCOPE_BASE (attr_filterstr ?self) (attr_attributes ?self)
         = Inl (LDAPError ''No such object'')
       \<and> example_environ ''repoze.who.logger'' = Some Logger"
    using unknown by simp
  have rejected: "example_search PNone SCOPE_BASE default_filterstr None = Inl TypeError
       \<and> \<not> is_ldap_error TypeError"
    by (simp add: example_search_def)
  have rejected': "example_search PNone SCOPE_BASE (attr_filterstr ?self) (attr_attributes ?self)
         = Inl TypeError \<and> \<not> is_ldap_error TypeError"
    using rejected by simp
  have "add_metadata ?self example_environ (PDict ?d)
     = (Inr (), PDict ?d,
        [SearchCall ?esr SCOPE_BASE (attr_filterstr ?self) (attr_attributes ?self),
         Warn (''Cannot add metadata: '' @ ''No such object'')])"
    using add_metadata_search_failure [of ?self example_search ?esr ?d "''No such object''"
        example_environ TypeError, OF can_search target, THEN conjunct1] unknown'
    by (rule mp)
  then have warned: "add_metadata ?self example_environ (PDict ?d)
     = (Inr (), PDict ?d,
        [SearchCall ?esr SCOPE_BASE default_filterstr None,
         Warn ''Cannot add metadata: No such object''])"
    by simp
  have raised: "fst (add_metadata ?self example_environ (PDict ?c)) = Inl TypeError"
    using add_metadata_search_failure [of ?self example_search PNone ?c "''No such object''"
        example_environ TypeError, OF can_search no_target, THEN conjunct2] rejected'
    by (rule mp)
  show ?thesis
    by (rule conjI [OF can_search conjI [OF unknown conjI [OF warned conjI [OF rejected raised]]]])
qed

section \<open>Attributes as a string or as a list\<close>

text \<open>
  C9: the constructor of the metadata provider gives the same result for the attributes
  \<^verbatim>\<open>"cn,mail"\<close> and \<^verbatim>\<open>["cn", "mail"]\<close>, whatever the connection and the
  filter are: the stored attribute list is \<^verbatim>\<open>["cn", "mail"]\<close> for both, and
  \<^verbatim>\<open>add_metadata\<close> on the two plugins gives the same outcome for every environment
  and identity.
\<close>

theorem attributes_string_or_list:
  "LDAPAttributesPlugin initialize ldap_connection (Atom (PStr ''cn,mail'')) filterstr
     = LDAPAttributesPlugin initialize ldap_connection (PList [PStr ''cn'', PStr ''mail'']) filterstr
   \<and> normalise_attributes (Atom (PStr ''cn,mail'')) = Inr (Some [PStr ''cn'', PStr ''mail''])
   \<and> normalise_attributes (PList [PStr ''cn'', PStr ''mail'']) = Inr (Some [PStr ''cn'', PStr ''mail''])
   \<and> map_sum id (\<lambda>self. add_metadata self environ identity)
        (LDAPAttributesPlugin initialize ldap_connection (Atom (PStr ''cn,mail'')) filterstr)
     = map_sum id (\<lambda>self. add_metadata self environ identity)
        (LDAPAttributesPlugin initialize ldap_connection (PList [PStr ''cn'', PStr ''mail'']) filterstr)"
proof -
  have split: "normalise_attributes (Atom (PStr ''cn,mail'')) = Inr (Some [PStr ''cn'', PStr ''mail''])"
    by simp
  have same: "LDAPAttributesPlugin initialize ldap_connection (Atom (PStr ''cn,mail'')) filterstr
     = LDAPAttributesPlugin initialize ldap_connection (PList [PStr ''cn'', PStr ''mail'']) filterstr"
    unfolding LDAPAttributesPlugin_def split by simp
  show ?thesis
    unfolding same using split by simp
qed

section \<open>An identity without the verified identifier\<close>

text \<open>
  C10: for every identity record without the key \<^verbatim>\<open>'repoze.who.userid'\<close>, the
  lookup yields \<^verbatim>\<open>None\<close> instead of raising, and \<^verbatim>\<open>add_metadata\<close> still
  issues its one search, with \<^verbatim>\<open>None\<close> as the base.
\<close>

theorem add_metadata_without_userid:
  assumes "map_of d ''repoze.who.userid'' = None"
    and "search_method (attr_ldap_connection self) = Some search"
  shows "py_get (PDict d) ''repoze.who.userid'' = Inr PNone
         \<and> filter is_search (snd (snd (add_metadata self environ (PDict d))))
             = [SearchCall PNone SCOPE_BASE (attr_filterstr self) (attr_attributes self)]"
  using add_metadata_searches [OF assms(2), of environ d] assms(1) by simp

theorem add_metadata_without_userid_witness:
  "map_of [(''cn'', PStr ''old'')] ''repoze.who.userid'' = None
   \<and> search_method (attr_ldap_connection \<lparr>attr_ldap_connection = Handle example_conn,
        attr_attributes = None, attr_filterstr = default_filterstr\<rparr>) = Some example_search
   \<and> py_get (PDict [(''cn'', PStr ''old'')]) ''repoze.who.userid'' = Inr PNone
   \<and> filter is_search (snd (snd (add_metadata \<lparr>attr_ldap_connection = Handle example_conn,
        attr_attributes = None, attr_filterstr = default_filterstr\<rparr> example_environ
        (PDict [(''cn'', PStr ''old'')]))))
     = [SearchCall PNone SCOPE_BASE default_filterstr None]"
proof -
  let ?self = "\<lparr>attr_ldap_connection = Handle example_conn,
        attr_attributes = None, attr_filterstr = default_filterstr\<rparr>"
  let ?c = "[(''cn'', PStr ''old'')]"
  have missing: "map_of ?c ''repoze.who.userid'' = None"
    by simp
  have can_search: "search_method (attr_ldap_connection ?self) = Some example_search"
    by (simp add: example_conn_def)
  note absent = add_metadata_without_userid [of ?c ?self example_search example_environ,
      OF missing can_search]
  have lookup: "py_get (PDict ?c) ''repoze.who.userid'' = Inr PNone"
    using absent by (rule conjunct1)
  have "filter is_search (snd (snd (add_metadata ?self example_environ (PDict ?c))))
     = [SearchCall PNone SCOPE_BASE (attr_filterstr ?self) (attr_attributes ?self)]"
    using absent by (rule conjunct2)
  then have searched: "filter is_search (snd (snd (add_metadata ?self example_environ (PDict ?c))))
     = [SearchCall PNone SCOPE_BASE default_filterstr None]"
    by simp
  show ?thesis
    by (rule conjI [OF missing conjI [OF can_search conjI [OF lookup searched]]])
qed

end
